theory Spec2Isabelle
  imports Complex_Main
begin

section \<open>Python values used by the program\<close>

text \<open>
  A Python \<open>str\<close> is modelled as a \<open>string\<close>, one \<open>char\<close> per code point, which covers the
  code points below 256. \<open>len\<close>, slicing and \<open>in\<close> then count code points, as Python does.
  \<open>str.isspace\<close>, \<open>str.strip\<close> and \<open>str.lower\<close> are written out for that range.
\<close>

definition isspace :: "char \<Rightarrow> bool" where
  "isspace c =
     (let n = (of_char c :: nat)
      in (9 \<le> n \<and> n \<le> 13) \<or> (28 \<le> n \<and> n \<le> 32) \<or> n = 133 \<or> n = 160)"

definition strip :: "string \<Rightarrow> string" where
  "strip s = rev (dropWhile isspace (rev (dropWhile isspace s)))"

definition lower_char :: "char \<Rightarrow> char" where
  "lower_char c =
     (let n = (of_char c :: nat)
      in if (65 \<le> n \<and> n \<le> 90) \<or> (192 \<le> n \<and> n \<le> 222 \<and> n \<noteq> 215)
         then char_of (n + 32) else c)"

definition lower :: "string \<Rightarrow> string" where
  "lower s = map lower_char s"

text \<open>\<open>sub in s\<close> on strings: \<open>sub\<close> occurs as a contiguous run of \<open>s\<close>.\<close>

fun py_in :: "string \<Rightarrow> string \<Rightarrow> bool" where
  "py_in sub [] = (sub = [])"
| "py_in sub (c # cs) = (take (length sub) (c # cs) = sub \<or> py_in sub cs)"

text \<open>\<open>s.split()\<close>: the maximal runs of non-whitespace, in order; \<open>cur\<close> is the run being read.\<close>

fun split_from :: "string \<Rightarrow> string \<Rightarrow> string list" where
  "split_from cur [] = (if cur = [] then [] else [cur])"
| "split_from cur (c # cs) =
     (if isspace c then (if cur = [] then split_from [] cs else cur # split_from [] cs)
      else split_from (cur @ [c]) cs)"

definition split :: "string \<Rightarrow> string list" where
  "split s = split_from [] s"

text \<open>
  \<open>xs[start:end]\<close> with Python's rules: a negative bound counts from the end, and both bounds
  are then clamped into \<open>0..len(xs)\<close>.
\<close>

definition slice_bound :: "nat \<Rightarrow> int \<Rightarrow> nat" where
  "slice_bound n i = (if i < 0 then nat (max 0 (int n + i)) else min n (nat i))"

definition py_slice :: "'a list \<Rightarrow> int \<Rightarrow> int \<Rightarrow> 'a list" where
  "py_slice xs start end =
     (let lo = slice_bound (length xs) start; hi = slice_bound (length xs) end
      in take (hi - lo) (drop lo xs))"

text \<open>A value that is a string or an integer (an id), and \<open>str()\<close> of it.\<close>

datatype pyval = PStr string | PInt int

fun digits_of :: "nat \<Rightarrow> nat \<Rightarrow> string" where
  "digits_of 0 n = []"
| "digits_of (Suc fuel) n =
     (if n < 10 then [char_of (48 + n)]
      else digits_of fuel (n div 10) @ [char_of (48 + n mod 10)])"

definition str_of_nat :: "nat \<Rightarrow> string" where
  "str_of_nat n = digits_of (Suc n) n"

definition str_of_int :: "int \<Rightarrow> string" where
  "str_of_int i = (if i < 0 then CHR ''-'' # str_of_nat (nat (- i)) else str_of_nat (nat i))"

fun py_str :: "pyval \<Rightarrow> string" where
  "py_str (PStr s) = s"
| "py_str (PInt i) = str_of_int i"

text \<open>
  A \<open>dict\<close> whose order matters is an association list with distinct keys: storing under a
  key that is present replaces the value in place, a new key goes to the end.
\<close>

fun dict_get :: "('k \<times> 'v) list \<Rightarrow> 'k \<Rightarrow> 'v option" where
  "dict_get [] k = None"
| "dict_get ((k', v) # d) k = (if k' = k then Some v else dict_get d k)"

fun dict_set :: "('k \<times> 'v) list \<Rightarrow> 'k \<Rightarrow> 'v \<Rightarrow> ('k \<times> 'v) list" where
  "dict_set [] k v = [(k, v)]"
| "dict_set ((k', v') # d) k v = (if k' = k then (k, v) # d else (k', v') # dict_set d k v)"

fun dict_del :: "('k \<times> 'v) list \<Rightarrow> 'k \<Rightarrow> ('k \<times> 'v) list" where
  "dict_del [] k = []"
| "dict_del ((k', v') # d) k = (if k' = k then d else (k', v') # dict_del d k)"

section \<open>The request governor: \<open>AntiAntiControl\<close>\<close>

record anti_control =
  min_delay_ms :: int
  max_delay_ms :: int
  max_retries :: int
  base_backoff_ms :: int
  last_request_timestamp :: real

definition anti_control_init :: anti_control where
  "anti_control_init =
     \<lparr>min_delay_ms = 1000, max_delay_ms = 2000, max_retries = 3, base_backoff_ms = 1000,
      last_request_timestamp = 0\<rparr>"



text \<open>\<open>error_code\<close> defaults to \<open>None\<close>; \<open>error_code in [...]\<close> is false for \<open>None\<close>.\<close>

definition code_in :: "int option \<Rightarrow> int list \<Rightarrow> bool" where
  "code_in error_code cs = (case error_code of None \<Rightarrow> False | Some c \<Rightarrow> c \<in> set cs)"

definition should_retry :: "anti_control \<Rightarrow> int \<Rightarrow> int option \<Rightarrow> bool" where
  "should_retry ac attempt error_code =
     (if attempt \<ge> max_retries ac then False
      else if code_in error_code [-352, 412, 500, 502, 503, 504] then True
      else error_code \<noteq> None)"


section \<open>The transport wrapper: \<open>BilibiliAPI._make_request\<close>\<close>






definition get_or :: "'a option \<Rightarrow> 'a \<Rightarrow> 'a" where
  "get_or x d = (case x of None \<Rightarrow> d | Some v \<Rightarrow> v)"










section \<open>The relation store: \<open>DataManager\<close>\<close>

subsection \<open>Observers\<close>

text \<open>
  A callback either returns, raises an exception that is an \<open>Exception\<close>, or raises one that is
  only a \<open>BaseException\<close> (which \<open>except Exception\<close> does not catch). A callback is a function
  of the event and its data; the run of \<open>notify_observers\<close> is the list of the calls it makes
  and the lines it prints, with the exception that leaves it, if any.
\<close>

datatype cb_outcome = Returns | Raises_Exception string | Raises_BaseException string

type_synonym 'd callback = "string \<Rightarrow> 'd \<Rightarrow> cb_outcome"



definition unregister_observer ::
  "(string \<times> 'd callback) list \<Rightarrow> string \<Rightarrow> (string \<times> 'd callback) list" where
  "unregister_observer observers name =
     (if dict_get observers name \<noteq> None then dict_del observers name else observers)"






subsection \<open>The full rebuild: \<open>process_data\<close>\<close>

text \<open>
  An entry of the following list is a \<open>dict\<close>; a key it may lack is an \<open>option\<close>. The id is a
  string or an integer, the name and the bio are strings, and the payloads under \<open>vip\<close> and
  \<open>official\<close> are passed on unread.
\<close>

type_synonym opaque = "(string \<times> string) list"

record user =
  u_uid :: "pyval option"
  u_mid :: "pyval option"
  u_uname :: "string option"
  u_sign :: "string option"
  u_mtime :: "int option"
  u_mtime_str :: "string option"
  u_face :: "string option"
  u_vip :: "opaque option"
  u_official :: "opaque option"

text \<open>
  The default of \<open>mtime_str\<close>: the source's literal lies outside the modelled range of code
  points and stands as its UTF-8 bytes.
\<close>

definition unknown_str :: string where
  "unknown_str = [char_of (230::nat), char_of (156::nat), char_of (170::nat),
                  char_of (231::nat), char_of (159::nat), char_of (165::nat)]"

text \<open>
  \<open>re.findall(r'\b\w+\b', s)\<close> returns the maximal runs of word characters: the
  alphanumeric code points and the underscore.
\<close>

definition is_word_char :: "char \<Rightarrow> bool" where
  "is_word_char c =
     (let n = (of_char c :: nat)
      in (48 \<le> n \<and> n \<le> 57) \<or> (65 \<le> n \<and> n \<le> 90) \<or> n = 95 \<or> (97 \<le> n \<and> n \<le> 122) \<or>
         n = 170 \<or> n = 178 \<or> n = 179 \<or> n = 181 \<or> n = 185 \<or> n = 186 \<or>
         (188 \<le> n \<and> n \<le> 190) \<or> (192 \<le> n \<and> n \<le> 214) \<or> (216 \<le> n \<and> n \<le> 246) \<or>
         248 \<le> n)"

fun words_from :: "string \<Rightarrow> string \<Rightarrow> string list" where
  "words_from cur [] = (if cur = [] then [] else [cur])"
| "words_from cur (c # cs) =
     (if is_word_char c then words_from (cur @ [c]) cs
      else (if cur = [] then words_from [] cs else cur # words_from [] cs))"

definition findall_words :: "string \<Rightarrow> string list" where
  "findall_words s = words_from [] s"

text \<open>
  \<open>if key not in index: index[key] = []\<close> followed by \<open>index[key].append(uid)\<close>, and the
  variant of \<open>by_sign\<close> that appends only an id the list does not hold yet.
\<close>

definition index_append ::
  "(string \<times> string list) list \<Rightarrow> string \<Rightarrow> string \<Rightarrow> (string \<times> string list) list" where
  "index_append idx key uid = dict_set idx key (get_or (dict_get idx key) [] @ [uid])"

definition index_append_new ::
  "(string \<times> string list) list \<Rightarrow> string \<Rightarrow> string \<Rightarrow> (string \<times> string list) list" where
  "index_append_new idx key uid =
     (let ids = get_or (dict_get idx key) []
      in dict_set idx key (if uid \<in> set ids then ids else ids @ [uid]))"

definition bucket :: "nat \<Rightarrow> nat \<Rightarrow> string" where
  "bucket w n = str_of_nat (n div w * w) @ ''-'' @ str_of_nat ((n div w + 1) * w - 1)"

definition count_up :: "(string \<times> nat) list \<Rightarrow> string \<Rightarrow> (string \<times> nat) list" where
  "count_up stats key = dict_set stats key (get_or (dict_get stats key) 0 + 1)"

text \<open>The ids an index holds under a key; none when the key is absent.\<close>

definition ids_at :: "(string \<times> string list) list \<Rightarrow> string \<Rightarrow> string set" where
  "ids_at idx key = set (get_or (dict_get idx key) [])"

text \<open>The parts of \<open>processed\<close> that the loop over \<open>raw_list\<close> writes.\<close>

record build =
  b_users :: "(string \<times> user) list"
  b_by_name :: "(string \<times> string list) list"
  b_by_uid :: "(string \<times> string list) list"
  b_by_sign :: "(string \<times> string list) list"
  b_name_length_stats :: "(string \<times> nat) list"
  b_sign_length_stats :: "(string \<times> nat) list"

definition build_empty :: build where
  "build_empty =
     \<lparr>b_users = [], b_by_name = [], b_by_uid = [], b_by_sign = [],
      b_name_length_stats = [], b_sign_length_stats = []\<rparr>"

definition user_id :: "user \<Rightarrow> string" where
  "user_id u =
     (let s = py_str (get_or (u_uid u) (PStr []))
      in if s \<noteq> [] then s else py_str (get_or (u_mid u) (PStr [])))"

definition name_prefixes :: "string \<Rightarrow> string list" where
  "name_prefixes name_lower =
     map (\<lambda>i. take i name_lower) [1..<min (length name_lower + 1) 20]"

definition uid_prefixes :: "string \<Rightarrow> string list" where
  "uid_prefixes uid_key =
     (if length uid_key \<le> 20 then map (\<lambda>i. take i uid_key) [1..<length uid_key + 1] else [])"

text \<open>
  One pass through the body of \<open>for user in raw_list\<close>. The words of the bio are visited
  once each; the order in which Python iterates the \<open>set\<close> of words is not fixed, and the
  model takes them by first occurrence.
\<close>

definition process_user :: "build \<Rightarrow> user \<Rightarrow> build" where
  "process_user b u =
     (let uid = user_id u;
          uname = strip (get_or (u_uname u) []);
          sign = (if get_or (u_sign u) [] \<noteq> [] then strip (get_or (u_sign u) []) else []);
          mtime = get_or (u_mtime u) 0;
          mtime_str = get_or (u_mtime_str u) unknown_str
      in if uid = [] then b
         else
           (let user_info =
                  \<lparr>u_uid = Some (PStr uid), u_mid = None, u_uname = Some uname,
                   u_sign = Some sign, u_mtime = Some mtime, u_mtime_str = Some mtime_str,
                   u_face = Some (get_or (u_face u) []), u_vip = Some (get_or (u_vip u) []),
                   u_official = Some (get_or (u_official u) [])\<rparr>;
                unique_words = remdups (findall_words (lower sign))
            in \<lparr>b_users = dict_set (b_users b) uid user_info,
                b_by_name =
                  foldl (\<lambda>idx prefix. index_append idx prefix uid) (b_by_name b)
                    (name_prefixes (lower uname)),
                b_by_uid =
                  foldl (\<lambda>idx prefix. index_append idx prefix uid) (b_by_uid b)
                    (uid_prefixes (lower uid)),
                b_by_sign =
                  foldl (\<lambda>idx word. if length word \<ge> 2 then index_append_new idx word uid else idx)
                    (b_by_sign b) unique_words,
                b_name_length_stats = count_up (b_name_length_stats b) (bucket 10 (length uname)),
                b_sign_length_stats = count_up (b_sign_length_stats b) (bucket 50 (length sign))\<rparr>))"

text \<open>
  An index of the finished snapshot holds id lists and, under \<open>__total__\<close>, the number of its
  keys, stored after the loop.
\<close>

datatype index_entry = Uids "string list" | Total nat

definition with_total :: "(string \<times> string list) list \<Rightarrow> (string \<times> index_entry) list" where
  "with_total idx = dict_set (map (\<lambda>(k, ids). (k, Uids ids)) idx) ''__total__'' (Total (length idx))"

record processed =
  version :: string
  update_time :: string
  total_count :: nat
  users :: "(string \<times> user) list"
  by_name :: "(string \<times> index_entry) list"
  by_uid :: "(string \<times> index_entry) list"
  by_sign :: "(string \<times> index_entry) list"
  name_length_stats :: "(string \<times> nat) list"
  sign_length_stats :: "(string \<times> nat) list"

text \<open>\<open>now\<close> is the text of \<open>datetime.now().isoformat()\<close>.\<close>

definition process_data :: "string \<Rightarrow> user list \<Rightarrow> processed" where
  "process_data now raw_list =
     (let b = foldl process_user build_empty raw_list
      in \<lparr>version = ''1.0'', update_time = now, total_count = length raw_list,
          users = b_users b,
          by_name = with_total (b_by_name b),
          by_uid = with_total (b_by_uid b),
          by_sign = with_total (b_by_sign b),
          name_length_stats = b_name_length_stats b,
          sign_length_stats = b_sign_length_stats b\<rparr>)"

definition no_fields :: user where
  "no_fields =
     \<lparr>u_uid = None, u_mid = None, u_uname = None, u_sign = None, u_mtime = None,
      u_mtime_str = None, u_face = None, u_vip = None, u_official = None\<rparr>"

definition api_user :: "int \<Rightarrow> string \<Rightarrow> string \<Rightarrow> user" where
  "api_user m name bio = no_fields\<lparr>u_mid := Some (PInt m), u_uname := Some name, u_sign := Some bio\<rparr>"

section \<open>The search service: \<open>SearchService\<close>\<close>

text \<open>
  \<open>history_file\<close> is the list stored in \<open>search_history.json\<close>, \<open>None\<close> while the file does
  not exist; writing it succeeds.
\<close>

record search_service =
  ss_data :: "user list"
  search_history :: "string list"
  history_file :: "string list option"

text \<open>\<open>xs[-50:]\<close>.\<close>

definition save_history :: "search_service \<Rightarrow> search_service" where
  "save_history s =
     s\<lparr>history_file :=
         Some (py_slice (search_history s) (-50) (int (length (search_history s))))\<rparr>"

definition add_to_history :: "search_service \<Rightarrow> string \<Rightarrow> search_service" where
  "add_to_history s q =
     (if q \<noteq> [] \<and> strip q \<noteq> [] then
        (let q' = strip q;
             h = (if q' \<in> set (search_history s) then remove1 q' (search_history s)
                  else search_history s)
         in save_history (s\<lparr>search_history := q' # h\<rparr>))
      else s)"

definition get_history :: "search_service \<Rightarrow> int \<Rightarrow> string list" where
  "get_history s limit = py_slice (search_history s) 0 limit"

datatype py_error = ZeroDivisionError

record search_result =
  r_results :: "user list"
  r_total :: int
  r_page :: int
  r_page_size :: int
  r_total_pages :: int
  r_query :: string

definition matches_exact :: "string \<Rightarrow> user \<Rightarrow> bool" where
  "matches_exact keyword u =
     (py_in keyword (lower (get_or (u_uname u) [])) \<or>
      py_in keyword (py_str (get_or (u_uid u) (PStr []))) \<or>
      py_in keyword (lower (get_or (u_sign u) [])))"

definition matches_any :: "string list \<Rightarrow> user \<Rightarrow> bool" where
  "matches_any keywords u =
     (let uname = lower (get_or (u_uname u) []);
          sign = lower (get_or (u_sign u) []);
          uid = py_str (get_or (u_uid u) (PStr []))
      in list_ex (\<lambda>kw. py_in kw uname \<or> py_in kw sign \<or> py_in kw uid) keywords)"

text \<open>The entries that match, in the order of the data list.\<close>

definition search_matches :: "search_service \<Rightarrow> string \<Rightarrow> bool \<Rightarrow> user list" where
  "search_matches s keyword exact =
     (if exact then filter (matches_exact keyword) (ss_data s)
      else filter (matches_any (split keyword)) (ss_data s))"

text \<open>
  \<open>search\<close> returns its result dict and the service as it leaves it, or the exception it
  raises. The \<open>elapsed\<close> entry of the dict, a wall-clock reading, is left out.
\<close>

definition search ::
  "search_service \<Rightarrow> string \<Rightarrow> bool \<Rightarrow> int \<Rightarrow> int \<Rightarrow> py_error + search_result \<times> search_service" where
  "search s q exact pg pg_size =
     (if q = [] \<or> strip q = [] then
        Inr (\<lparr>r_results = [], r_total = 0, r_page = 1, r_page_size = pg_size,
              r_total_pages = 0, r_query = []\<rparr>, s)
      else
        (let q' = strip q;
             keyword = lower q';
             results = search_matches s keyword exact;
             total = int (length results)
         in if pg_size = 0 then Inl ZeroDivisionError
            else
              (let total_pages = (total + pg_size - 1) div pg_size;
                   pg' = min pg (max 1 total_pages);
                   start_idx = (pg' - 1) * pg_size;
                   end_idx = start_idx + pg_size;
                   page_results = py_slice results start_idx end_idx
               in Inr (\<lparr>r_results = page_results, r_total = total, r_page = pg',
                        r_page_size = pg_size, r_total_pages = total_pages, r_query = q'\<rparr>,
                       add_to_history s q'))))"

text \<open>Sample inputs used below.\<close>

definition twenty_name :: string where
  "twenty_name = ''Abcdefghijklmnopqrst''"

definition twenty_id :: string where
  "twenty_id = ''12345678901234567890''"

definition sample_service :: search_service where
  "sample_service =
     \<lparr>ss_data = [api_user 1 ''Ann'' [], api_user 2 ''Anna'' [], api_user 3 ''Bob'' []],
      search_history = [], history_file = None\<rparr>"

definition fifty_queries :: "string list" where
  "fifty_queries = map str_of_nat [1..<51]"

definition full_history :: search_service where
  "full_history =
     \<lparr>ss_data = [], search_history = fifty_queries, history_file = Some fifty_queries\<rparr>"

section \<open>Properties of the governor\<close>

text \<open>
  C2. \<open>should_retry\<close> is false whenever \<open>attempt \<ge> max_retries\<close>. Below \<open>max_retries\<close> it is
  true for each code of the retryable set -352, 412, 500, 502, 503, 504 and true for every other
  code that is not \<open>None\<close>. It is false for the outcome that carries no error code
  (\<open>error_code = None\<close>, the default of the parameter), which is how a success reaches it.
\<close>

theorem should_retry_spec:
  "(attempt \<ge> max_retries ac \<longrightarrow> \<not> should_retry ac attempt error_code) \<and>
   (attempt < max_retries ac \<and> c \<in> {-352, 412, 500, 502, 503, 504}
      \<longrightarrow> should_retry ac attempt (Some c)) \<and>
   (attempt < max_retries ac \<longrightarrow> should_retry ac attempt (Some c)) \<and>
   \<not> should_retry ac attempt None"
  by (simp add: should_retry_def code_in_def)

theorem should_retry_spec_witness:
  "(3::int) \<ge> max_retries anti_control_init \<and> \<not> should_retry anti_control_init 3 (Some 500) \<and>
   (0::int) < max_retries anti_control_init \<and> (-352::int) \<in> {-352, 412, 500, 502, 503, 504} \<and>
   should_retry anti_control_init 0 (Some (-352)) \<and>
   should_retry anti_control_init 0 (Some 22016) \<and>
   \<not> should_retry anti_control_init 0 None"
  using should_retry_spec [of anti_control_init 3 "Some 500" 0]
    should_retry_spec [of anti_control_init 0 None "-352"]
    should_retry_spec [of anti_control_init 0 None 22016]
  by (simp add: anti_control_init_def)




section \<open>Properties of the observers\<close>







section \<open>Properties of the transport wrapper\<close>









section \<open>Properties of the search service\<close>

text \<open>Slices at bounds that are not negative, the history lists, and the page of a search.\<close>

lemma py_slice_nonneg:
  "0 \<le> a \<Longrightarrow> a \<le> b \<Longrightarrow> py_slice xs a b = take (nat (b - a)) (drop (nat a) xs)"
  by (auto simp: py_slice_def slice_bound_def Let_def min_def nat_diff_distrib)

lemma py_slice_last_50:
  "py_slice xs (-50) (int (length xs)) = drop (length xs - 50) xs"
proof -
  have n: "nat (int (length xs) - 50) = length xs - 50" by arith
  show ?thesis
    by (auto simp: py_slice_def slice_bound_def Let_def max_def n)
qed

lemma add_to_history_lists:
  assumes "q \<noteq> []" and "strip q \<noteq> []"
  shows "search_history (add_to_history s q) = strip q # remove1 (strip q) (search_history s) \<and>
         history_file (add_to_history s q) =
           Some (drop (length (strip q # remove1 (strip q) (search_history s)) - 50)
                   (strip q # remove1 (strip q) (search_history s)))"
proof -
  define h where "h = strip q # remove1 (strip q) (search_history s)"
  have a: "add_to_history s q = save_history (s\<lparr>search_history := h\<rparr>)"
    using assms by (simp add: add_to_history_def Let_def h_def remove1_idem)
  have "search_history (save_history (s\<lparr>search_history := h\<rparr>)) = h \<and>
        history_file (save_history (s\<lparr>search_history := h\<rparr>)) = Some (drop (length h - 50) h)"
    by (simp only: save_history_def py_slice_last_50) simp
  then show ?thesis
    unfolding a h_def .
qed

lemma search_page_clamped_above:
  assumes "q \<noteq> []" and "strip q \<noteq> []" and "1 \<le> pg_size" and "1 \<le> pg"
  shows "\<exists>r s'. search s q exact pg pg_size = Inr (r, s') \<and>
           r_total r = int (length (search_matches s (lower (strip q)) exact)) \<and>
           r_total_pages r = (r_total r + pg_size - 1) div pg_size \<and>
           r_page r = min pg (max 1 (r_total_pages r)) \<and>
           1 \<le> r_page r \<and> r_page r \<le> max 1 (r_total_pages r) \<and>
           r_results r =
             take (nat pg_size) (drop (nat ((r_page r - 1) * pg_size))
               (search_matches s (lower (strip q)) exact))"
proof -
  define tp where "tp = (int (length (search_matches s (lower (strip q)) exact)) + pg_size - 1) div pg_size"
  define p where "p = min pg (max 1 tp)"
  have p1: "1 \<le> p" using assms(4) by (simp add: p_def)
  have s0: "0 \<le> (p - 1) * pg_size" using p1 assms(3) by simp
  have sl: "py_slice xs ((p - 1) * pg_size) ((p - 1) * pg_size + pg_size) =
      take (nat pg_size) (drop (nat ((p - 1) * pg_size)) xs)" for xs :: "user list"
    using py_slice_nonneg [OF s0, of "(p - 1) * pg_size + pg_size" xs] assms(3) by simp
  show ?thesis
    using assms p1 sl
    by (simp add: search_def Let_def tp_def [symmetric] p_def [symmetric]) (simp add: p_def)
qed

text \<open>
  C7. For every data list and all pagination parameters, \<open>search\<close> with an empty or
  whitespace-only query returns no results, \<open>total = 0\<close> and \<open>total_pages = 0\<close>, and leaves the
  service, with its query history in memory and on disk, as it was.
\<close>

theorem search_blank_query:
  assumes "q = [] \<or> strip q = []"
  shows "search s q exact pg pg_size =
           Inr (\<lparr>r_results = [], r_total = 0, r_page = 1, r_page_size = pg_size,
                 r_total_pages = 0, r_query = []\<rparr>, s)"
  using assms by (auto simp: search_def)

theorem search_blank_query_witness:
  "(''  '' = [] \<or> strip ''  '' = []) \<and>
   search sample_service ''  '' False 3 0 =
     Inr (\<lparr>r_results = [], r_total = 0, r_page = 1, r_page_size = 0,
           r_total_pages = 0, r_query = []\<rparr>, sample_service)"
proof -
  have h: "''  '' = [] \<or> strip ''  '' = []" by code_simp
  from search_blank_query [OF h] h show ?thesis by simp
qed




text \<open>
  C6, at a history that is full. With fifty queries stored, newest first, a new query goes to
  the front of the list in memory, and the list written to disk is \<open>search_history[-50:]\<close>:
  the fifty older queries, without the new one.
\<close>

theorem history_file_drops_newest:
  "length (search_history full_history) = 50 \<and>
   search_history (add_to_history full_history ''new'') = ''new'' # search_history full_history \<and>
   history_file (add_to_history full_history ''new'') = Some (search_history full_history) \<and>
   ''new'' \<notin> set (search_history full_history)"
  by code_simp

section \<open>Properties of the full rebuild\<close>

text \<open>
  What the loop stores: the ids under a key of \<open>by_name\<close>, and the keys of \<open>users\<close>.
\<close>

lemma dict_get_set: "dict_get (dict_set d k v) k' = (if k' = k then Some v else dict_get d k')"
  by (induction d) auto

lemma dict_get_map:
  "dict_get (map (\<lambda>(k, v). (k, f v)) d) k = map_option f (dict_get d k)"
  by (induction d) auto

lemma ids_at_append:
  "ids_at (index_append idx key uid) k = (if k = key then insert uid (ids_at idx k) else ids_at idx k)"
  by (auto simp: ids_at_def index_append_def dict_get_set get_or_def split: option.splits)

lemma ids_at_foldl:
  "ids_at (foldl (\<lambda>idx prefix. index_append idx prefix uid) idx ps) k =
     (if k \<in> set ps then insert uid (ids_at idx k) else ids_at idx k)"
  by (induction ps arbitrary: idx) (auto simp: ids_at_append)

lemma by_name_process_user:
  "ids_at (b_by_name (process_user b u)) k =
     (if user_id u \<noteq> [] \<and> k \<in> set (name_prefixes (lower (strip (get_or (u_uname u) []))))
      then insert (user_id u) (ids_at (b_by_name b) k) else ids_at (b_by_name b) k)"
  by (simp add: process_user_def Let_def ids_at_foldl)

lemma by_name_foldl:
  "ids_at (b_by_name (foldl process_user b raw_list)) k =
     ids_at (b_by_name b) k \<union>
     {user_id u | u. u \<in> set raw_list \<and> user_id u \<noteq> [] \<and>
        k \<in> set (name_prefixes (lower (strip (get_or (u_uname u) []))))}"
  by (induction raw_list arbitrary: b) (auto simp: by_name_process_user)

lemma name_prefixes_iff:
  "k \<in> set (name_prefixes n) \<longleftrightarrow> (\<exists>i. 1 \<le> i \<and> i \<le> min 19 (length n) \<and> k = take i n)"
proof -
  have "set (name_prefixes n) = (\<lambda>i. take i n) ` {1..<min (length n + 1) 20}"
    by (simp only: name_prefixes_def set_map set_upt)
  moreover have "{1..<min (length n + 1) 20} = {i. 1 \<le> i \<and> i \<le> min 19 (length n)}"
    by auto
  ultimately show ?thesis by blast
qed

lemma with_total_get:
  "k \<noteq> ''__total__'' \<Longrightarrow> dict_get (with_total idx) k = map_option Uids (dict_get idx k)"
  by (simp add: with_total_def dict_get_set dict_get_map)


lemma length_lower: "length (lower s) = length s"
  by (simp add: lower_def)

lemma by_name_index:
  assumes "k \<noteq> ''__total__''"
  shows "(\<exists>ids. dict_get (by_name (process_data now raw_list)) k = Some (Uids ids) \<and> uid \<in> set ids) \<longleftrightarrow>
         (\<exists>u \<in> set raw_list. user_id u = uid \<and> uid \<noteq> [] \<and>
            (\<exists>i. 1 \<le> i \<and> i \<le> min 19 (length (strip (get_or (u_uname u) []))) \<and>
                 k = take i (lower (strip (get_or (u_uname u) [])))))"
proof -
  let ?idx = "b_by_name (foldl process_user build_empty raw_list)"
  have g: "dict_get (by_name (process_data now raw_list)) k = map_option Uids (dict_get ?idx k)"
    using assms by (simp add: process_data_def Let_def with_total_get)
  have "(\<exists>ids. dict_get (by_name (process_data now raw_list)) k = Some (Uids ids) \<and> uid \<in> set ids)
          \<longleftrightarrow> uid \<in> ids_at ?idx k"
    unfolding g by (cases "dict_get ?idx k") (auto simp: ids_at_def get_or_def)
  also have "\<dots> \<longleftrightarrow> (\<exists>u \<in> set raw_list. user_id u = uid \<and> uid \<noteq> [] \<and>
                 k \<in> set (name_prefixes (lower (strip (get_or (u_uname u) [])))))"
    unfolding by_name_foldl by (auto simp: build_empty_def ids_at_def get_or_def)
  finally show ?thesis
    by (simp only: name_prefixes_iff length_lower)
qed

lemma keys_dict_set:
  "map fst (dict_set d k v) = (if k \<in> set (map fst d) then map fst d else map fst d @ [k])"
  by (induction d) force+

lemma users_process_user:
  "map fst (b_users (process_user b u)) =
     (if user_id u = [] \<or> user_id u \<in> set (map fst (b_users b)) then map fst (b_users b)
      else map fst (b_users b) @ [user_id u])"
  by (simp add: process_user_def Let_def keys_dict_set)

lemma users_foldl:
  "distinct (map fst (b_users b)) \<Longrightarrow>
   distinct (map fst (b_users (foldl process_user b raw_list))) \<and>
   set (map fst (b_users (foldl process_user b raw_list))) =
     set (map fst (b_users b)) \<union> (set (map user_id raw_list) - {[]})"
proof (induction raw_list arbitrary: b)
  case Nil
  then show ?case by simp
next
  case (Cons u raw_list)
  have d: "distinct (map fst (b_users (process_user b u)))"
    using Cons.prems by (simp add: users_process_user)
  have s: "set (map fst (b_users (process_user b u))) =
      set (map fst (b_users b)) \<union> ({user_id u} - {[]})"
    by (auto simp: users_process_user)
  show ?case
    using Cons.IH [OF d] unfolding s by auto
qed

lemma users_count:
  "length (users (process_data now raw_list)) = card (set (map user_id raw_list) - {[]})"
proof -
  let ?ks = "map fst (b_users (foldl process_user build_empty raw_list))"
  have "distinct ?ks \<and> set ?ks = set (map user_id raw_list) - {[]}"
    using users_foldl [of build_empty raw_list] by (simp add: build_empty_def)
  then have "card (set (map user_id raw_list) - {[]}) = length ?ks"
    using distinct_card [of ?ks] by simp
  then show ?thesis by (simp add: process_data_def Let_def)
qed

lemma total_count_is_input_length:
  "total_count (process_data now raw_list) = length raw_list"
  by (simp add: process_data_def Let_def)

lemma users_count_le_total:
  "length (users (process_data now raw_list)) \<le> total_count (process_data now raw_list)"
proof -
  have "card (set (map user_id raw_list) - {[]}) \<le> card (set (map user_id raw_list))"
    by (intro card_mono) auto
  also have "\<dots> \<le> length raw_list"
    using card_length [of "map user_id raw_list"] by simp
  finally show ?thesis
    by (simp add: users_count total_count_is_input_length)
qed

lemma total_count_invariant_iff:
  "total_count (process_data now raw_list) = length (users (process_data now raw_list)) \<longleftrightarrow>
     [] \<notin> set (map user_id raw_list) \<and> distinct (map user_id raw_list)"
proof -
  let ?ys = "map user_id raw_list"
  have le1: "card (set ?ys - {[]}) \<le> card (set ?ys)" by (intro card_mono) auto
  have le2: "card (set ?ys) \<le> length ?ys" by (rule card_length)
  have "length raw_list = card (set ?ys - {[]}) \<longleftrightarrow> [] \<notin> set ?ys \<and> distinct ?ys"
  proof
    assume e: "length raw_list = card (set ?ys - {[]})"
    with le1 le2 have c: "card (set ?ys) = length ?ys" and c2: "card (set ?ys - {[]}) = card (set ?ys)"
      by simp_all
    from c have "distinct ?ys" by (rule card_distinct)
    moreover have "[] \<notin> set ?ys"
    proof
      assume "[] \<in> set ?ys"
      then have "card (set ?ys - {[]}) < card (set ?ys)"
        by (intro psubset_card_mono) auto
      with c2 show False by simp
    qed
    ultimately show "[] \<notin> set ?ys \<and> distinct ?ys" by simp
  next
    assume a: "[] \<notin> set ?ys \<and> distinct ?ys"
    then have "set ?ys - {[]} = set ?ys" by auto
    with a show "length raw_list = card (set ?ys - {[]})"
      using distinct_card [of ?ys] by simp
  qed
  then show ?thesis by (simp add: users_count total_count_is_input_length)
qed

text \<open>
  C4, at an entry without an id and at two entries with one id. \<open>total_count\<close> is the length
  of the input list, taken before the loop; the entry without an id is not stored and the
  second entry of an id replaces the first, so \<open>users\<close> has fewer entries than \<open>total_count\<close>.
\<close>

theorem total_count_counts_input:
  "total_count (process_data ''t'' [no_fields]) = 1 \<and>
   length (users (process_data ''t'' [no_fields])) = 0 \<and>
   total_count (process_data ''t'' [api_user 7 ''Ann'' [], api_user 7 ''Anna'' []]) = 2 \<and>
   map fst (users (process_data ''t'' [api_user 7 ''Ann'' [], api_user 7 ''Anna'' []])) = [''7'']"
  by code_simp

text \<open>
  C1, at a name of twenty characters. The loop over the name runs
  \<open>range(1, min(len(name_lower) + 1, 20))\<close>, which ends at 19: the prefix of length 19 is
  indexed and the prefix of length 20, the whole name, is not. The loop over the id has no such
  bound: an id of twenty characters is indexed under all of itself.
\<close>

theorem by_name_misses_prefix_20:
  "length (lower twenty_name) = 20 \<and>
   dict_get (by_name (process_data ''t'' [api_user 7 twenty_name []])) (take 19 (lower twenty_name))
     = Some (Uids [''7'']) \<and>
   dict_get (by_name (process_data ''t'' [api_user 7 twenty_name []])) (take 20 (lower twenty_name))
     = None \<and>
   dict_get (by_uid (process_data ''t'' [no_fields\<lparr>u_uid := Some (PStr twenty_id)\<rparr>])) (take 20 twenty_id)
     = Some (Uids [twenty_id])"
  by code_simp

text \<open>
  Two more facts about \<open>by_name\<close>. The key count is stored under \<open>__total__\<close> in the index
  itself, so it replaces the id list of a name that has this very prefix. And the ids of an
  entry stay in the index when a later entry of the same id replaces it in \<open>users\<close>.
\<close>

lemma by_name_total_key_overwritten:
  "dict_get (by_name (process_data ''t'' [api_user 7 ''__total__'' []])) ''__total__'' = Some (Total 9)"
  by code_simp

lemma by_name_keeps_overwritten_name:
  "users (process_data ''t'' [api_user 7 ''Bob'' [], api_user 7 ''Ann'' []]) =
     [(''7'', no_fields\<lparr>u_uid := Some (PStr ''7''), u_uname := Some ''Ann'', u_sign := Some [],
         u_mtime := Some 0, u_mtime_str := Some unknown_str, u_face := Some [], u_vip := Some [],
         u_official := Some []\<rparr>)] \<and>
   dict_get (by_name (process_data ''t'' [api_user 7 ''Bob'' [], api_user 7 ''Ann'' []])) ''b''
     = Some (Uids [''7''])"
  by code_simp

end
